theory Spec2Isabelle
  imports Main "HOL-Library.Sublist"
begin

section \<open>savecb: saving the clipboard's content to a file\<close>

text \<open>
  The program (\<^verbatim>\<open>savecb.c\<close>) is a chain of GTK callbacks: \<^verbatim>\<open>main\<close> asks the clipboard
  for its targets, \<^verbatim>\<open>on_clipboard_received_targets\<close> picks one and asks for its content,
  \<^verbatim>\<open>on_clipboard_received_content\<close> classifies the content and calls \<^verbatim>\<open>save_image\<close> or
  \<^verbatim>\<open>save_text\<close>, which run a native save dialog and write the file.

  The embedding keeps the functions of the source as state transformers on a \<open>world\<close>
  (the calls made to the toolkit so far, the file system, the pending clipboard
  requests and the flag of the main loop). What the toolkit answers (the targets the
  clipboard offers, the selection data it delivers, the response and the filename of a
  dialog, the outcome of a write or of an encoding) is a parameter, the record
  \<open>toolkit\<close>; every theorem holds for all of its values unless a hypothesis fixes one.
  Among the answers is whether \<^verbatim>\<open>gtk_init\<close> can open the display: when it cannot, it ends
  the process with status 1. Every other toolkit call returns: the clipboard delivers
  what is requested and the user answers the dialog.

  A \<open>string\<close> stands for a C string: the bytes before the terminating NUL.
\<close>

subsection \<open>Data\<close>

text \<open>A \<^verbatim>\<open>GdkPixbuf\<close>: the program only passes it on to the encoder.\<close>

record pixbuf =
  width :: nat
  height :: nat
  pixels :: "nat list"

text \<open>
  A \<^verbatim>\<open>GtkSelectionData\<close>, by what its three getters used in the source return:
  \<^verbatim>\<open>gtk_selection_data_get_length\<close>, \<^verbatim>\<open>gtk_selection_data_get_pixbuf\<close> and
  \<^verbatim>\<open>gtk_selection_data_get_text\<close> (\<open>None\<close> for \<^verbatim>\<open>NULL\<close>).
\<close>

record selection_data =
  get_length :: int
  get_pixbuf :: "pixbuf option"
  get_text :: "string option"

text \<open>
  A \<^verbatim>\<open>GtkFileChooserNative\<close> as the source configures it: the arguments of
  \<^verbatim>\<open>gtk_file_chooser_native_new\<close>, the name given to
  \<^verbatim>\<open>gtk_file_chooser_set_current_name\<close> and the filters added (name and pattern).
\<close>

record dialog =
  title :: string
  accept_label :: string
  cancel_label :: string
  current_name :: string
  filters :: "(string \<times> string) list"

text \<open>
  The calls that leave the program, in the order they are made. \<open>Print\<close> and
  \<open>PrintErr\<close> keep the format string and the arguments of \<^verbatim>\<open>g_print\<close> and
  \<^verbatim>\<open>g_printerr\<close> apart, so that a message is recognised by its call site and not by
  text that an argument may happen to contain.
\<close>

datatype event =
    Print string "string list"
  | PrintErr string "string list"
  | RequestTargets
  | RequestContents string
  | RunDialog dialog
  | SetContents string string
  | PixbufSave pixbuf string string
  | MainQuit

text \<open>A clipboard request whose callback the main loop still has to call.\<close>

datatype request = ReqTargets | ReqContents string

record world =
  trace :: "event list"
  files :: "string \<rightharpoonup> string"
  pending :: "request list"
  quit :: bool

text \<open>
  The answers of the toolkit: whether \<^verbatim>\<open>gtk_init\<close>, given the arguments of the process,
  can open the display; the names (\<^verbatim>\<open>gdk_atom_name\<close>) of the targets handed to the
  targets callback; the selection data delivered for a requested target; the value of
  \<^verbatim>\<open>gtk_native_dialog_run\<close> and of \<^verbatim>\<open>gtk_file_chooser_get_filename\<close> for a dialog; the
  error message of \<^verbatim>\<open>g_file_set_contents\<close> for a filename and contents (\<open>None\<close> when it
  succeeds); for \<^verbatim>\<open>gdk_pixbuf_save\<close> either the error message (\<open>Inl\<close>) or the encoded
  bytes (\<open>Inr\<close>); and what a failed \<^verbatim>\<open>gdk_pixbuf_save\<close> leaves at the filename, given what
  was there (the file as it was when it could not be opened, no file when the encoder
  failed after the file was opened).
\<close>

record toolkit =
  display_opens :: "string list \<Rightarrow> bool"
  clipboard_targets :: "string list"
  clipboard_contents :: "string \<Rightarrow> selection_data"
  dialog_run :: "dialog \<Rightarrow> int"
  dialog_filename :: "dialog \<Rightarrow> string option"
  file_set_contents :: "string \<Rightarrow> string \<Rightarrow> string option"
  pixbuf_save :: "pixbuf \<Rightarrow> string \<Rightarrow> string \<Rightarrow> string + string"
  failed_save_leaves :: "string \<Rightarrow> string option \<Rightarrow> string option"

text \<open>The value of \<^verbatim>\<open>GTK_RESPONSE_ACCEPT\<close> in GTK 3's \<^verbatim>\<open>GtkResponseType\<close>.\<close>

definition GTK_RESPONSE_ACCEPT :: int where
  "GTK_RESPONSE_ACCEPT = - 3"

subsection \<open>The toolkit functions the source calls\<close>

text \<open>
  \<^verbatim>\<open>gtk_init (&argc, &argv)\<close> parses the arguments and opens the display. When the
  display cannot be opened it logs a warning of its own and calls \<^verbatim>\<open>exit (1)\<close>: the value
  \<open>None\<close>. Otherwise it returns and the world is as it was.
\<close>

definition gtk_init :: "toolkit \<Rightarrow> string list \<Rightarrow> world \<Rightarrow> world option" where
  "gtk_init tk argv w = (if display_opens tk argv then Some w else None)"

definition emit :: "event \<Rightarrow> world \<Rightarrow> world" where
  "emit e w = w\<lparr>trace := trace w @ [e]\<rparr>"

definition g_print :: "string \<Rightarrow> string list \<Rightarrow> world \<Rightarrow> world" where
  "g_print fmt args w = emit (Print fmt args) w"

definition g_printerr :: "string \<Rightarrow> string list \<Rightarrow> world \<Rightarrow> world" where
  "g_printerr fmt args w = emit (PrintErr fmt args) w"

text \<open>\<^verbatim>\<open>g_str_has_prefix\<close> compares the first \<^verbatim>\<open>strlen (prefix)\<close> bytes.\<close>

definition g_str_has_prefix :: "string \<Rightarrow> string \<Rightarrow> bool" where
  "g_str_has_prefix str pre = (take (length pre) str = pre)"

text \<open>
  \<^verbatim>\<open>g_str_has_suffix\<close> is false when the string is shorter than the suffix and
  compares the last \<^verbatim>\<open>strlen (suffix)\<close> bytes otherwise.
\<close>

definition g_str_has_suffix :: "string \<Rightarrow> string \<Rightarrow> bool" where
  "g_str_has_suffix str suf =
     (if length str < length suf then False
      else drop (length str - length suf) str = suf)"

text \<open>
  \<^verbatim>\<open>g_file_set_contents (filename, contents, length, &error)\<close>: a negative length
  means that the contents are NUL-terminated, so all of the string is written. On
  success the file holds the contents, replacing what it held; on failure the error
  message is returned.
\<close>

definition g_file_set_contents ::
  "toolkit \<Rightarrow> string \<Rightarrow> string \<Rightarrow> int \<Rightarrow> world \<Rightarrow> string option \<times> world" where
  "g_file_set_contents tk filename contents len w =
     (let bytes = (if len < 0 then contents else take (nat len) contents);
          w1 = emit (SetContents filename bytes) w
      in case file_set_contents tk filename bytes of
           None \<Rightarrow> (None, w1\<lparr>files := (files w1)(filename \<mapsto> bytes)\<rparr>)
         | Some message \<Rightarrow> (Some message, w1))"

definition gdk_pixbuf_save ::
  "toolkit \<Rightarrow> pixbuf \<Rightarrow> string \<Rightarrow> string \<Rightarrow> world \<Rightarrow> string option \<times> world" where
  "gdk_pixbuf_save tk pb filename format w =
     (let w1 = emit (PixbufSave pb filename format) w
      in case pixbuf_save tk pb filename format of
           Inr bytes \<Rightarrow> (None, w1\<lparr>files := (files w1)(filename \<mapsto> bytes)\<rparr>)
         | Inl message \<Rightarrow>
             (Some message,
              w1\<lparr>files := (files w1)(filename := failed_save_leaves tk filename (files w1 filename))\<rparr>))"

definition gtk_main_quit :: "world \<Rightarrow> world" where
  "gtk_main_quit w = (emit MainQuit w)\<lparr>quit := True\<rparr>"

definition gtk_clipboard_request_targets :: "world \<Rightarrow> world" where
  "gtk_clipboard_request_targets w =
     (emit RequestTargets w)\<lparr>pending := pending w @ [ReqTargets]\<rparr>"

definition gtk_clipboard_request_contents :: "string \<Rightarrow> world \<Rightarrow> world" where
  "gtk_clipboard_request_contents target w =
     (emit (RequestContents target) w)\<lparr>pending := pending w @ [ReqContents target]\<rparr>"

subsection \<open>The functions of \<^verbatim>\<open>savecb.c\<close>\<close>

definition save_text_dialog :: dialog where
  "save_text_dialog =
     \<lparr>title = ''Save Text File'', accept_label = ''_Save'', cancel_label = ''_Cancel'',
      current_name = ''clipboard_text.txt'',
      filters = [(''Text Files (*.txt)'', ''*.txt'')]\<rparr>"

definition save_text :: "toolkit \<Rightarrow> string \<Rightarrow> world \<Rightarrow> world" where
  "save_text tk text w =
     (let w1 = emit (RunDialog save_text_dialog) w;
          w2 =
            (if dialog_run tk save_text_dialog = GTK_RESPONSE_ACCEPT then
               (case dialog_filename tk save_text_dialog of
                  Some filename \<Rightarrow>
                    (case g_file_set_contents tk filename text (- 1) w1 of
                       (None, w') \<Rightarrow>
                         g_print ''Text successfully saved to: %s\<newline>'' [filename] w'
                     | (Some message, w') \<Rightarrow>
                         g_printerr ''Error saving text file: %s\<newline>'' [message] w')
                | None \<Rightarrow> w1)
             else g_print ''Text save canceled.\<newline>'' [] w1)
      in gtk_main_quit w2)"

definition save_image_dialog :: dialog where
  "save_image_dialog =
     \<lparr>title = ''Save Image File'', accept_label = ''_Save'', cancel_label = ''_Cancel'',
      current_name = ''clipboard_image.png'',
      filters = [(''PNG Image (*.png)'', ''*.png''), (''JPEG Image (*.jpg)'', ''*.jpg'')]\<rparr>"

definition save_image :: "toolkit \<Rightarrow> pixbuf \<Rightarrow> world \<Rightarrow> world" where
  "save_image tk pb w =
     (let w1 = emit (RunDialog save_image_dialog) w;
          w2 =
            (if dialog_run tk save_image_dialog = GTK_RESPONSE_ACCEPT then
               (case dialog_filename tk save_image_dialog of
                  Some filename \<Rightarrow>
                    (let format =
                           (if g_str_has_suffix filename ''.jpg''
                               \<or> g_str_has_suffix filename ''.jpeg''
                            then ''jpeg'' else ''png'')
                     in case gdk_pixbuf_save tk pb filename format w1 of
                          (None, w') \<Rightarrow>
                            g_print ''Image successfully saved to: %s\<newline>'' [filename] w'
                        | (Some message, w') \<Rightarrow>
                            g_printerr ''Error saving image: %s\<newline>'' [message] w')
                | None \<Rightarrow> w1)
             else g_print ''Image save canceled.\<newline>'' [] w1)
      in gtk_main_quit w2)"

definition unsupported_msg :: string where
  "unsupported_msg = ''Clipboard is empty or contains an unsupported format.\<newline>''"

definition on_clipboard_received_content :: "toolkit \<Rightarrow> selection_data \<Rightarrow> world \<Rightarrow> world" where
  "on_clipboard_received_content tk selection w =
     (if get_length selection = 0 then gtk_main_quit (g_print unsupported_msg [] w)
      else
        (case get_pixbuf selection of
           Some pb \<Rightarrow>
             save_image tk pb (g_print ''Image data detected. Opening save dialog...\<newline>'' [] w)
         | None \<Rightarrow>
             (case get_text selection of
                Some text \<Rightarrow>
                  save_text tk text
                    (g_print ''Text data detected. Opening save dialog...\<newline>'' [] w)
              | None \<Rightarrow> gtk_main_quit (g_print unsupported_msg [] w))))"

text \<open>The first loop of \<^verbatim>\<open>on_clipboard_received_targets\<close>: stop at the first image target.\<close>

fun find_image_target :: "string list \<Rightarrow> string option" where
  "find_image_target [] = None"
| "find_image_target (target_name # targets) =
     (if g_str_has_prefix target_name ''image/'' then Some target_name
      else find_image_target targets)"

text \<open>The second loop: stop at the first text target.\<close>

fun find_text_target :: "string list \<Rightarrow> string option" where
  "find_text_target [] = None"
| "find_text_target (target_name # targets) =
     (if target_name = ''text/plain'' \<or> target_name = ''UTF8_STRING'' then Some target_name
      else find_text_target targets)"

text \<open>The third loop prints the names from index \<open>i\<close> on, with a comma before all but the first.\<close>

fun print_targets :: "nat \<Rightarrow> string list \<Rightarrow> world \<Rightarrow> world" where
  "print_targets i [] w = w"
| "print_targets i (target_name # targets) w =
     print_targets (Suc i) targets
       (g_print ''%s'' [target_name] (if 0 < i then g_print '', '' [] w else w))"

text \<open>
  The callback gets the targets as an array and its length; the list is the array.
  (On a failed request the length is not positive and no loop runs, as for the empty
  list.) An atom is identified with its name and \<^verbatim>\<open>NULL\<close> with \<open>None\<close>.
\<close>

definition on_clipboard_received_targets :: "toolkit \<Rightarrow> string list \<Rightarrow> world \<Rightarrow> world" where
  "on_clipboard_received_targets tk targets w =
     (let target_atom = find_image_target targets;
          target_atom = (if target_atom = None then find_text_target targets else target_atom)
      in case target_atom of
           Some target \<Rightarrow> gtk_clipboard_request_contents target w
         | None \<Rightarrow>
             gtk_main_quit
               (g_print ''\<newline>'' []
                 (print_targets 0 targets
                   (g_print ''Found targets: '' [] (g_print unsupported_msg [] w)))))"

subsection \<open>The main loop\<close>

definition dispatch :: "toolkit \<Rightarrow> request \<Rightarrow> world \<Rightarrow> world" where
  "dispatch tk r w =
     (case r of
        ReqTargets \<Rightarrow> on_clipboard_received_targets tk (clipboard_targets tk) w
      | ReqContents target \<Rightarrow> on_clipboard_received_content tk (clipboard_contents tk target) w)"

text \<open>
  \<^verbatim>\<open>gtk_main\<close> calls the callbacks of the pending requests until one of them has called
  \<^verbatim>\<open>gtk_main_quit\<close>. With nothing pending and no quit it waits for ever: the value \<open>None\<close>.
\<close>

partial_function (option) gtk_main :: "toolkit \<Rightarrow> world \<Rightarrow> world option" where
  "gtk_main tk w =
     (if quit w then Some w
      else case pending w of
             [] \<Rightarrow> gtk_main tk w
           | r # rs \<Rightarrow> gtk_main tk (dispatch tk r (w\<lparr>pending := rs\<rparr>)))"

definition init_world :: "(string \<rightharpoonup> string) \<Rightarrow> world" where
  "init_world fs = \<lparr>trace = [], files = fs, pending = [], quit = False\<rparr>"

text \<open>
  \<^verbatim>\<open>main\<close>: the arguments are handed to \<^verbatim>\<open>gtk_init\<close> and not read again; \<open>fs\<close> is the
  file system the process starts with. The result is the final world and the exit
  status of the process: 1 when \<^verbatim>\<open>gtk_init\<close> has ended it, the 0 that \<^verbatim>\<open>main\<close> returns
  after \<^verbatim>\<open>gtk_main\<close> otherwise. A main loop that never returns is \<open>None\<close>.
\<close>

definition main :: "toolkit \<Rightarrow> string list \<Rightarrow> (string \<rightharpoonup> string) \<Rightarrow> (world \<times> int) option" where
  "main tk argv fs =
     (case gtk_init tk argv (init_world fs) of
        None \<Rightarrow> Some (init_world fs, 1)
      | Some w0 \<Rightarrow>
          (case gtk_main tk (gtk_clipboard_request_targets w0) of
             None \<Rightarrow> None
           | Some w \<Rightarrow> Some (w, 0)))"

subsection \<open>What a run shows\<close>

text \<open>
  \<^verbatim>\<open>printf\<close> formatting, for the one directive the source uses: each \<^verbatim>\<open>%s\<close> is replaced
  by the next argument, everything else is copied.
\<close>

fun render :: "string \<Rightarrow> string list \<Rightarrow> string" where
  "render [] args = []"
| "render [c] args = [c]"
| "render (c # d # fmt) args =
     (if c = CHR ''%'' \<and> d = CHR ''s'' then
        (case args of [] \<Rightarrow> render fmt [] | a # rest \<Rightarrow> a @ render fmt rest)
      else c # render (d # fmt) args)"

fun stdout_of :: "event \<Rightarrow> string" where
  "stdout_of (Print fmt args) = render fmt args"
| "stdout_of _ = []"

fun stderr_of :: "event \<Rightarrow> string" where
  "stderr_of (PrintErr fmt args) = render fmt args"
| "stderr_of _ = []"

fun dialog_of :: "event \<Rightarrow> dialog list" where
  "dialog_of (RunDialog d) = [d]"
| "dialog_of _ = []"

fun write_of :: "event \<Rightarrow> (string \<times> string) list" where
  "write_of (SetContents filename bytes) = [(filename, bytes)]"
| "write_of _ = []"

fun encoding_of :: "event \<Rightarrow> (pixbuf \<times> string \<times> string) list" where
  "encoding_of (PixbufSave pb filename format) = [(pb, filename, format)]"
| "encoding_of _ = []"

fun requested_of :: "event \<Rightarrow> string list" where
  "requested_of (RequestContents target) = [target]"
| "requested_of _ = []"

fun quit_of :: "event \<Rightarrow> unit list" where
  "quit_of MainQuit = [()]"
| "quit_of _ = []"

text \<open>
  The text the program writes to standard output (with \<^verbatim>\<open>g_print\<close>) and to standard error
  (with \<^verbatim>\<open>g_printerr\<close>).
\<close>

definition stdout :: "world \<Rightarrow> string" where
  "stdout w = concat (map stdout_of (trace w))"

definition stderr :: "world \<Rightarrow> string" where
  "stderr w = concat (map stderr_of (trace w))"

text \<open>
  The dialogs run, the calls of \<^verbatim>\<open>g_file_set_contents\<close> (filename and bytes), the calls
  of \<^verbatim>\<open>gdk_pixbuf_save\<close> (pixbuf, filename and format), the targets whose content was
  requested and the calls of \<^verbatim>\<open>gtk_main_quit\<close>.
\<close>

definition dialogs :: "world \<Rightarrow> dialog list" where
  "dialogs w = concat (map dialog_of (trace w))"

definition writes :: "world \<Rightarrow> (string \<times> string) list" where
  "writes w = concat (map write_of (trace w))"

definition encodings :: "world \<Rightarrow> (pixbuf \<times> string \<times> string) list" where
  "encodings w = concat (map encoding_of (trace w))"

definition requested :: "world \<Rightarrow> string list" where
  "requested w = concat (map requested_of (trace w))"

definition quits :: "world \<Rightarrow> nat" where
  "quits w = length (concat (map quit_of (trace w)))"

text \<open>
  The messages that end a run: success, cancellation and "empty or unsupported" on
  standard output, the two error messages on standard error.
\<close>

fun is_success_msg :: "event \<Rightarrow> bool" where
  "is_success_msg (Print fmt args) =
     (fmt = ''Text successfully saved to: %s\<newline>'' \<or> fmt = ''Image successfully saved to: %s\<newline>'')"
| "is_success_msg _ = False"

fun is_cancel_msg :: "event \<Rightarrow> bool" where
  "is_cancel_msg (Print fmt args) =
     (fmt = ''Text save canceled.\<newline>'' \<or> fmt = ''Image save canceled.\<newline>'')"
| "is_cancel_msg _ = False"

fun is_error_msg :: "event \<Rightarrow> bool" where
  "is_error_msg (PrintErr fmt args) =
     (fmt = ''Error saving text file: %s\<newline>'' \<or> fmt = ''Error saving image: %s\<newline>'')"
| "is_error_msg _ = False"

fun is_unsupported_msg :: "event \<Rightarrow> bool" where
  "is_unsupported_msg (Print fmt args) = (fmt = unsupported_msg)"
| "is_unsupported_msg _ = False"

definition is_terminal_msg :: "event \<Rightarrow> bool" where
  "is_terminal_msg e =
     (is_success_msg e \<or> is_cancel_msg e \<or> is_error_msg e \<or> is_unsupported_msg e)"

definition terminal_msgs :: "world \<Rightarrow> event list" where
  "terminal_msgs w = filter is_terminal_msg (trace w)"

text \<open>The names of a target list as the report prints them, separated by a comma and a space.\<close>

fun comma_separated :: "string list \<Rightarrow> string" where
  "comma_separated [] = []"
| "comma_separated [t] = t"
| "comma_separated (t # u # ts) = t @ '', '' @ comma_separated (u # ts)"

text \<open>
  A toolkit that gives the same answer whatever it is asked, for concrete runs: the
  display opens, and a failed \<^verbatim>\<open>gdk_pixbuf_save\<close> leaves the file as it was.
\<close>

definition constant_toolkit ::
  "string list \<Rightarrow> selection_data \<Rightarrow> int \<Rightarrow> string option \<Rightarrow> string option \<Rightarrow> string + string
     \<Rightarrow> toolkit" where
  "constant_toolkit targets selection response filename write_error encoded =
     \<lparr>display_opens = (\<lambda>_. True),
      clipboard_targets = targets, clipboard_contents = (\<lambda>_. selection),
      dialog_run = (\<lambda>_. response), dialog_filename = (\<lambda>_. filename),
      file_set_contents = (\<lambda>_ _. write_error), pixbuf_save = (\<lambda>_ _ _. encoded),
      failed_save_leaves = (\<lambda>_ before. before)\<rparr>"


section \<open>Facts about the toolkit functions\<close>


lemma g_str_has_prefix_iff: "g_str_has_prefix s p = prefix p s"
proof
  assume "g_str_has_prefix s p"
  then have "s = p @ drop (length p) s"
    unfolding g_str_has_prefix_def by (metis append_take_drop_id)
  then show "prefix p s" by (metis prefixI)
next
  assume "prefix p s"
  then obtain zs where "s = p @ zs" by (auto simp: prefix_def)
  then show "g_str_has_prefix s p" by (simp add: g_str_has_prefix_def)
qed

lemma g_str_has_suffix_iff: "g_str_has_suffix s p = suffix p s"
proof
  assume a: "g_str_has_suffix s p"
  then have "drop (length s - length p) s = p"
    by (simp add: g_str_has_suffix_def split: if_splits)
  then have "s = take (length s - length p) s @ p"
    by (metis append_take_drop_id)
  then show "suffix p s" by (metis suffixI)
next
  assume "suffix p s"
  then obtain zs where "s = zs @ p" by (auto simp: suffix_def)
  then show "g_str_has_suffix s p" by (simp add: g_str_has_suffix_def)
qed

lemma find_image_target_eq: "find_image_target ts = List.find (prefix ''image/'') ts"
  by (induction ts) (simp_all add: g_str_has_prefix_iff)

lemma find_text_target_eq:
  "find_text_target ts = List.find (\<lambda>t. t = ''text/plain'' \<or> t = ''UTF8_STRING'') ts"
  by (induction ts) simp_all

lemma emit_fields [simp]:
  "trace (emit e w) = trace w @ [e]"
  "files (emit e w) = files w"
  "pending (emit e w) = pending w"
  "quit (emit e w) = quit w"
  by (simp_all add: emit_def)

lemma g_print_fields [simp]:
  "trace (g_print fmt args w) = trace w @ [Print fmt args]"
  "files (g_print fmt args w) = files w"
  "pending (g_print fmt args w) = pending w"
  "quit (g_print fmt args w) = quit w"
  by (simp_all add: g_print_def)

lemma g_printerr_fields [simp]:
  "trace (g_printerr fmt args w) = trace w @ [PrintErr fmt args]"
  "files (g_printerr fmt args w) = files w"
  "pending (g_printerr fmt args w) = pending w"
  "quit (g_printerr fmt args w) = quit w"
  by (simp_all add: g_printerr_def)

lemma gtk_main_quit_fields [simp]:
  "trace (gtk_main_quit w) = trace w @ [MainQuit]"
  "files (gtk_main_quit w) = files w"
  "pending (gtk_main_quit w) = pending w"
  "quit (gtk_main_quit w)"
  by (simp_all add: gtk_main_quit_def)

lemma request_contents_fields [simp]:
  "trace (gtk_clipboard_request_contents t w) = trace w @ [RequestContents t]"
  "files (gtk_clipboard_request_contents t w) = files w"
  "pending (gtk_clipboard_request_contents t w) = pending w @ [ReqContents t]"
  "quit (gtk_clipboard_request_contents t w) = quit w"
  by (simp_all add: gtk_clipboard_request_contents_def)

subsection \<open>The save routines, case by case\<close>

lemma save_text_canceled:
  assumes "dialog_run tk save_text_dialog \<noteq> GTK_RESPONSE_ACCEPT"
  shows "trace (save_text tk text w) =
           trace w @ [RunDialog save_text_dialog, Print ''Text save canceled.\<newline>'' [], MainQuit]"
    and "files (save_text tk text w) = files w"
  using assms by (simp_all add: save_text_def Let_def)

lemma save_text_no_filename:
  assumes "dialog_run tk save_text_dialog = GTK_RESPONSE_ACCEPT"
    and "dialog_filename tk save_text_dialog = None"
  shows "trace (save_text tk text w) = trace w @ [RunDialog save_text_dialog, MainQuit]"
    and "files (save_text tk text w) = files w"
  using assms by (simp_all add: save_text_def Let_def)

lemma save_text_written:
  assumes "dialog_run tk save_text_dialog = GTK_RESPONSE_ACCEPT"
    and "dialog_filename tk save_text_dialog = Some filename"
    and "file_set_contents tk filename text = None"
  shows "trace (save_text tk text w) =
           trace w @ [RunDialog save_text_dialog, SetContents filename text,
                      Print ''Text successfully saved to: %s\<newline>'' [filename], MainQuit]"
    and "files (save_text tk text w) = (files w)(filename \<mapsto> text)"
  using assms by (simp_all add: save_text_def Let_def g_file_set_contents_def)

lemma save_text_failed:
  assumes "dialog_run tk save_text_dialog = GTK_RESPONSE_ACCEPT"
    and "dialog_filename tk save_text_dialog = Some filename"
    and "file_set_contents tk filename text = Some message"
  shows "trace (save_text tk text w) =
           trace w @ [RunDialog save_text_dialog, SetContents filename text,
                      PrintErr ''Error saving text file: %s\<newline>'' [message], MainQuit]"
    and "files (save_text tk text w) = files w"
  using assms by (simp_all add: save_text_def Let_def g_file_set_contents_def)

lemma save_text_quit [simp]:
  "quit (save_text tk text w)" "pending (save_text tk text w) = pending w"
  by (simp_all add: save_text_def Let_def g_file_set_contents_def split: option.splits)


lemma save_image_canceled:
  assumes "dialog_run tk save_image_dialog \<noteq> GTK_RESPONSE_ACCEPT"
  shows "trace (save_image tk pb w) =
           trace w @ [RunDialog save_image_dialog, Print ''Image save canceled.\<newline>'' [], MainQuit]"
    and "files (save_image tk pb w) = files w"
  using assms by (simp_all add: save_image_def Let_def)

lemma save_image_no_filename:
  assumes "dialog_run tk save_image_dialog = GTK_RESPONSE_ACCEPT"
    and "dialog_filename tk save_image_dialog = None"
  shows "trace (save_image tk pb w) = trace w @ [RunDialog save_image_dialog, MainQuit]"
    and "files (save_image tk pb w) = files w"
  using assms by (simp_all add: save_image_def Let_def)

lemma save_image_written:
  assumes "dialog_run tk save_image_dialog = GTK_RESPONSE_ACCEPT"
    and "dialog_filename tk save_image_dialog = Some filename"
    and "format = (if suffix ''.jpg'' filename \<or> suffix ''.jpeg'' filename then ''jpeg'' else ''png'')"
    and "pixbuf_save tk pb filename format = Inr bytes"
  shows "trace (save_image tk pb w) =
           trace w @ [RunDialog save_image_dialog, PixbufSave pb filename format,
                      Print ''Image successfully saved to: %s\<newline>'' [filename], MainQuit]"
    and "files (save_image tk pb w) = (files w)(filename \<mapsto> bytes)"
  using assms by (auto simp add: save_image_def Let_def gdk_pixbuf_save_def g_str_has_suffix_iff)

lemma save_image_failed:
  assumes "dialog_run tk save_image_dialog = GTK_RESPONSE_ACCEPT"
    and "dialog_filename tk save_image_dialog = Some filename"
    and "format = (if suffix ''.jpg'' filename \<or> suffix ''.jpeg'' filename then ''jpeg'' else ''png'')"
    and "pixbuf_save tk pb filename format = Inl message"
  shows "trace (save_image tk pb w) =
           trace w @ [RunDialog save_image_dialog, PixbufSave pb filename format,
                      PrintErr ''Error saving image: %s\<newline>'' [message], MainQuit]"
    and "files (save_image tk pb w) =
           (files w)(filename := failed_save_leaves tk filename (files w filename))"
  using assms by (auto simp add: save_image_def Let_def gdk_pixbuf_save_def g_str_has_suffix_iff)

lemma save_image_quit [simp]:
  "quit (save_image tk pb w)" "pending (save_image tk pb w) = pending w"
  by (simp_all add: save_image_def Let_def gdk_pixbuf_save_def split: option.splits sum.splits)

lemma gtk_main_returns: "quit w \<Longrightarrow> gtk_main tk w = Some w"
  by (subst gtk_main.simps) simp

lemma gtk_main_step:
  "\<not> quit w \<Longrightarrow> pending w = r # rs \<Longrightarrow>
   gtk_main tk w = gtk_main tk (dispatch tk r (w\<lparr>pending := rs\<rparr>))"
  by (subst gtk_main.simps) simp

lemma seen_append:
  assumes "trace w' = trace w @ es"
  shows "stdout w' = stdout w @ concat (map stdout_of es)"
    and "stderr w' = stderr w @ concat (map stderr_of es)"
    and "dialogs w' = dialogs w @ concat (map dialog_of es)"
    and "writes w' = writes w @ concat (map write_of es)"
    and "encodings w' = encodings w @ concat (map encoding_of es)"
    and "requested w' = requested w @ concat (map requested_of es)"
    and "quits w' = quits w + length (concat (map quit_of es))"
    and "terminal_msgs w' = terminal_msgs w @ filter is_terminal_msg es"
  using assms
  by (simp_all add: stdout_def stderr_def dialogs_def writes_def encodings_def requested_def
      quits_def terminal_msgs_def)

lemma render_string [simp]: "render ''%s'' [a] = a"
  by simp


lemma print_targets_trace:
  "\<exists>es. trace (print_targets i targets w) = trace w @ es
     \<and> concat (map stdout_of es) = (if 0 < i \<and> targets \<noteq> [] then '', '' else []) @ comma_separated targets
     \<and> (\<forall>e \<in> set es. \<exists>a. e = Print ''%s'' [a] \<or> e = Print '', '' [])"
proof (induction targets arbitrary: i w)
  case Nil
  then show ?case by simp
next
  case (Cons t ts)
  let ?w1 = "g_print ''%s'' [t] (if 0 < i then g_print '', '' [] w else w)"
  from Cons.IH [of "Suc i" ?w1] obtain es where
    es: "trace (print_targets (Suc i) ts ?w1) = trace ?w1 @ es"
      "concat (map stdout_of es) = (if ts \<noteq> [] then '', '' else []) @ comma_separated ts"
      "\<forall>e \<in> set es. \<exists>a. e = Print ''%s'' [a] \<or> e = Print '', '' []"
    by auto
  let ?pre = "(if 0 < i then [Print '', '' []] else []) @ [Print ''%s'' [t]]"
  have t1: "trace ?w1 = trace w @ ?pre" by simp
  have "trace (print_targets i (t # ts) w) = trace w @ (?pre @ es)"
    using es(1) t1 by simp
  moreover have "concat (map stdout_of (?pre @ es)) =
      (if 0 < i \<and> t # ts \<noteq> [] then '', '' else []) @ comma_separated (t # ts)"
    using es(2) by (cases ts) simp_all
  moreover have "\<forall>e \<in> set (?pre @ es). \<exists>a. e = Print ''%s'' [a] \<or> e = Print '', '' []"
    using es(3) by auto
  ultimately show ?case by blast
qed

lemma print_targets_rest [simp]:
  "files (print_targets i targets w) = files w"
  "pending (print_targets i targets w) = pending w"
  "quit (print_targets i targets w) = quit w"
  by (induction targets arbitrary: i w) simp_all

subsection \<open>Concrete worlds and toolkits\<close>

lemma init_world_fields [simp]:
  "trace (init_world fs) = []"
  "files (init_world fs) = fs"
  "pending (init_world fs) = []"
  "\<not> quit (init_world fs)"
  by (simp_all add: init_world_def)

lemma init_world_seen [simp]:
  "stdout (init_world fs) = []"
  "stderr (init_world fs) = []"
  "dialogs (init_world fs) = []"
  "writes (init_world fs) = []"
  "encodings (init_world fs) = []"
  "requested (init_world fs) = []"
  "quits (init_world fs) = 0"
  "terminal_msgs (init_world fs) = []"
  by (simp_all add: stdout_def stderr_def dialogs_def writes_def encodings_def requested_def
      quits_def terminal_msgs_def)

lemma constant_toolkit_fields [simp]:
  "display_opens (constant_toolkit targets selection response filename write_error encoded) argv"
  "failed_save_leaves (constant_toolkit targets selection response filename write_error encoded) p before = before"
  "clipboard_targets (constant_toolkit targets selection response filename write_error encoded) = targets"
  "clipboard_contents (constant_toolkit targets selection response filename write_error encoded) t = selection"
  "dialog_run (constant_toolkit targets selection response filename write_error encoded) d = response"
  "dialog_filename (constant_toolkit targets selection response filename write_error encoded) d = filename"
  "file_set_contents (constant_toolkit targets selection response filename write_error encoded) p c = write_error"
  "pixbuf_save (constant_toolkit targets selection response filename write_error encoded) pb p f = encoded"
  by (simp_all add: constant_toolkit_def)

subsection \<open>The callbacks\<close>

lemma request_targets_fields [simp]:
  "trace (gtk_clipboard_request_targets w) = trace w @ [RequestTargets]"
  "files (gtk_clipboard_request_targets w) = files w"
  "pending (gtk_clipboard_request_targets w) = pending w @ [ReqTargets]"
  "quit (gtk_clipboard_request_targets w) = quit w"
  by (simp_all add: gtk_clipboard_request_targets_def)

lemma on_clipboard_received_content_quit [simp]:
  "quit (on_clipboard_received_content tk selection w)"
  "pending (on_clipboard_received_content tk selection w) = pending w"
  by (simp_all add: on_clipboard_received_content_def split: option.splits)

lemma content_case:
  obtains (none) "on_clipboard_received_content tk selection w =
        gtk_main_quit (g_print unsupported_msg [] w)"
  | (image) pb where "on_clipboard_received_content tk selection w =
        save_image tk pb (g_print ''Image data detected. Opening save dialog...\<newline>'' [] w)"
  | (plain) t where "on_clipboard_received_content tk selection w =
        save_text tk t (g_print ''Text data detected. Opening save dialog...\<newline>'' [] w)"
proof (cases "get_length selection = 0")
  case True
  then show ?thesis by (intro none) (simp add: on_clipboard_received_content_def)
next
  case False
  show ?thesis
  proof (cases "get_pixbuf selection")
    case (Some pb)
    with False show ?thesis by (intro image) (simp add: on_clipboard_received_content_def)
  next
    case None
    note no_image = this
    show ?thesis
    proof (cases "get_text selection")
      case (Some t)
      with False no_image show ?thesis
        by (intro plain) (simp add: on_clipboard_received_content_def)
    next
      case None
      with False no_image show ?thesis
        by (intro none) (simp add: on_clipboard_received_content_def)
    qed
  qed
qed

lemma target_names_only:
  assumes "\<forall>e \<in> set es. \<exists>a. e = Print ''%s'' [a] \<or> e = Print '', '' []"
  shows "concat (map stderr_of es) = []"
    and "concat (map dialog_of es) = []"
    and "concat (map write_of es) = []"
    and "concat (map encoding_of es) = []"
    and "concat (map requested_of es) = []"
    and "concat (map quit_of es) = []"
    and "filter is_terminal_msg es = []"
    and "filter is_unsupported_msg es = []"
  using assms
  by (induction es) (auto simp: is_terminal_msg_def unsupported_msg_def)

lemma on_clipboard_received_targets_none:
  assumes "find_image_target targets = None" and "find_text_target targets = None"
  shows "\<exists>es. trace (on_clipboard_received_targets tk targets w) =
            trace w @ [Print unsupported_msg [], Print ''Found targets: '' []] @ es
              @ [Print ''\<newline>'' [], MainQuit]
          \<and> concat (map stdout_of es) = comma_separated targets
          \<and> (\<forall>e \<in> set es. \<exists>a. e = Print ''%s'' [a] \<or> e = Print '', '' [])"
    and "quit (on_clipboard_received_targets tk targets w)"
    and "files (on_clipboard_received_targets tk targets w) = files w"
    and "pending (on_clipboard_received_targets tk targets w) = pending w"
proof -
  let ?asked = "g_print ''Found targets: '' [] (g_print unsupported_msg [] w)"
  obtain es where es: "trace (print_targets 0 targets ?asked) = trace ?asked @ es"
    "concat (map stdout_of es) = comma_separated targets"
    "\<forall>e \<in> set es. \<exists>a. e = Print ''%s'' [a] \<or> e = Print '', '' []"
    using print_targets_trace [of 0 targets ?asked] by auto
  have "trace (on_clipboard_received_targets tk targets w) =
            trace w @ [Print unsupported_msg [], Print ''Found targets: '' []] @ es
              @ [Print ''\<newline>'' [], MainQuit]"
    using assms es(1) by (simp add: on_clipboard_received_targets_def)
  with es(2,3) show "\<exists>es. trace (on_clipboard_received_targets tk targets w) =
            trace w @ [Print unsupported_msg [], Print ''Found targets: '' []] @ es
              @ [Print ''\<newline>'' [], MainQuit]
          \<and> concat (map stdout_of es) = comma_separated targets
          \<and> (\<forall>e \<in> set es. \<exists>a. e = Print ''%s'' [a] \<or> e = Print '', '' [])"
    by blast
  show "quit (on_clipboard_received_targets tk targets w)"
    "files (on_clipboard_received_targets tk targets w) = files w"
    "pending (on_clipboard_received_targets tk targets w) = pending w"
    using assms by (simp_all add: on_clipboard_received_targets_def)
qed

lemma on_clipboard_received_targets_some:
  assumes "(if find_image_target targets = None then find_text_target targets
            else find_image_target targets) = Some t"
  shows "on_clipboard_received_targets tk targets w = gtk_clipboard_request_contents t w"
  using assms by (simp add: on_clipboard_received_targets_def Let_def)

subsection \<open>The main loop, step by step\<close>

lemma main_no_display:
  assumes "\<not> display_opens tk argv"
  shows "main tk argv fs = Some (init_world fs, 1)"
  using assms by (simp add: main_def gtk_init_def)

lemma main_no_target:
  assumes "display_opens tk argv"
    and "find_image_target (clipboard_targets tk) = None"
    and "find_text_target (clipboard_targets tk) = None"
  shows "main tk argv fs =
     Some (on_clipboard_received_targets tk (clipboard_targets tk)
             ((gtk_clipboard_request_targets (init_world fs))\<lparr>pending := []\<rparr>), 0)"
proof -
  let ?start = "gtk_clipboard_request_targets (init_world fs)"
  let ?heard = "on_clipboard_received_targets tk (clipboard_targets tk) (?start\<lparr>pending := []\<rparr>)"
  have "gtk_main tk ?start = gtk_main tk (dispatch tk ReqTargets (?start\<lparr>pending := []\<rparr>))"
    by (rule gtk_main_step) simp_all
  also have "\<dots> = gtk_main tk ?heard" by (simp add: dispatch_def)
  also have "\<dots> = Some ?heard"
    by (rule gtk_main_returns) (rule on_clipboard_received_targets_none(2)[OF assms(2,3)])
  finally show ?thesis using assms(1) by (simp add: main_def gtk_init_def)
qed

lemma main_target:
  assumes "display_opens tk argv"
    and "(if find_image_target (clipboard_targets tk) = None
          then find_text_target (clipboard_targets tk)
          else find_image_target (clipboard_targets tk)) = Some t"
  shows "main tk argv fs =
     Some (on_clipboard_received_content tk (clipboard_contents tk t)
             ((gtk_clipboard_request_contents t
                 ((gtk_clipboard_request_targets (init_world fs))\<lparr>pending := []\<rparr>))\<lparr>pending := []\<rparr>), 0)"
proof -
  let ?start = "gtk_clipboard_request_targets (init_world fs)"
  let ?asked = "gtk_clipboard_request_contents t (?start\<lparr>pending := []\<rparr>)"
  let ?final = "on_clipboard_received_content tk (clipboard_contents tk t) (?asked\<lparr>pending := []\<rparr>)"
  have "gtk_main tk ?start = gtk_main tk (dispatch tk ReqTargets (?start\<lparr>pending := []\<rparr>))"
    by (rule gtk_main_step) simp_all
  also have "\<dots> = gtk_main tk ?asked"
    by (simp add: dispatch_def on_clipboard_received_targets_some [OF assms(2)])
  also have "\<dots> = gtk_main tk (dispatch tk (ReqContents t) (?asked\<lparr>pending := []\<rparr>))"
    by (rule gtk_main_step) simp_all
  also have "\<dots> = gtk_main tk ?final" by (simp add: dispatch_def)
  also have "\<dots> = Some ?final" by (rule gtk_main_returns) simp
  finally show ?thesis using assms(1) by (simp add: main_def gtk_init_def)
qed

lemma selection_exists:
  assumes "\<not> (find_image_target targets = None \<and> find_text_target targets = None)"
  shows "\<exists>t. (if find_image_target targets = None then find_text_target targets
              else find_image_target targets) = Some t"
  using assms by (cases "find_image_target targets"; cases "find_text_target targets") auto

subsection \<open>Reading a run off its trace\<close>

lemma dialogs_differ: "save_text_dialog \<noteq> save_image_dialog"
  by (simp add: save_text_dialog_def save_image_dialog_def)

lemma seen_from_start:
  assumes "trace w = es"
  shows "dialogs w = concat (map dialog_of es)"
    and "writes w = concat (map write_of es)"
    and "encodings w = concat (map encoding_of es)"
    and "requested w = concat (map requested_of es)"
    and "quits w = length (concat (map quit_of es))"
    and "terminal_msgs w = filter is_terminal_msg es"
  using assms
  by (simp_all add: dialogs_def writes_def encodings_def requested_def quits_def
      terminal_msgs_def)

lemma terminal_msg_simps [simp]:
  "is_terminal_msg RequestTargets = False"
  "is_terminal_msg (RequestContents t) = False"
  "is_terminal_msg (RunDialog d) = False"
  "is_terminal_msg (SetContents p c) = False"
  "is_terminal_msg (PixbufSave pb p f) = False"
  "is_terminal_msg MainQuit = False"
  "is_terminal_msg (Print ''Text data detected. Opening save dialog...\<newline>'' []) = False"
  "is_terminal_msg (Print ''Image data detected. Opening save dialog...\<newline>'' []) = False"
  "is_terminal_msg (Print ''Found targets: '' []) = False"
  "is_terminal_msg (Print ''\<newline>'' []) = False"
  "is_terminal_msg (Print unsupported_msg []) = True"
  "is_terminal_msg (Print ''Text save canceled.\<newline>'' []) = True"
  "is_terminal_msg (Print ''Image save canceled.\<newline>'' []) = True"
  "is_terminal_msg (Print ''Text successfully saved to: %s\<newline>'' [p]) = True"
  "is_terminal_msg (Print ''Image successfully saved to: %s\<newline>'' [p]) = True"
  "is_terminal_msg (PrintErr ''Error saving text file: %s\<newline>'' [m]) = True"
  "is_terminal_msg (PrintErr ''Error saving image: %s\<newline>'' [m]) = True"
  by (simp_all add: is_terminal_msg_def unsupported_msg_def)

section \<open>The claims\<close>

subsection \<open>Target negotiation\<close>

text \<open>
  C1: for every target list, the targets callback requests the content of the first
  target whose name starts with \<^verbatim>\<open>image/\<close> if there is one; otherwise of the first target
  named \<^verbatim>\<open>text/plain\<close> or \<^verbatim>\<open>UTF8_STRING\<close> if there is one; otherwise it requests nothing.
  In particular an image target is requested whenever the list has one, wherever it
  stands and whatever text targets stand before it.
\<close>

theorem target_negotiation:
  "requested (on_clipboard_received_targets tk targets w) =
     requested w @
     (case List.find (prefix ''image/'') targets of
        Some t \<Rightarrow> [t]
      | None \<Rightarrow>
          (case List.find (\<lambda>t. t = ''text/plain'' \<or> t = ''UTF8_STRING'') targets of
             Some t \<Rightarrow> [t]
           | None \<Rightarrow> []))
   \<and> ((\<exists>t \<in> set targets. prefix ''image/'' t) \<longrightarrow>
        (\<exists>t \<in> set targets. prefix ''image/'' t
           \<and> requested (on_clipboard_received_targets tk targets w) = requested w @ [t]))"
proof -
  let ?w' = "on_clipboard_received_targets tk targets w"
  let ?img = "List.find (prefix ''image/'') targets"
  let ?txt = "List.find (\<lambda>t. t = ''text/plain'' \<or> t = ''UTF8_STRING'') targets"
  have sel: "requested ?w' =
      requested w @ (case ?img of Some t \<Rightarrow> [t] | None \<Rightarrow> (case ?txt of Some t \<Rightarrow> [t] | None \<Rightarrow> []))"
  proof (cases ?img)
    case (Some t)
    then have "trace ?w' = trace w @ [RequestContents t]"
      by (simp add: on_clipboard_received_targets_def find_image_target_eq)
    from seen_append(6) [OF this] Some show ?thesis by simp
  next
    case None
    note img = this
    show ?thesis
    proof (cases ?txt)
      case (Some t)
      then have "trace ?w' = trace w @ [RequestContents t]"
        using img
        by (simp add: on_clipboard_received_targets_def find_image_target_eq find_text_target_eq)
      from seen_append(6) [OF this] Some img show ?thesis by simp
    next
      case None
      obtain es where es: "trace (print_targets 0 targets
            (g_print ''Found targets: '' [] (g_print unsupported_msg [] w))) =
          trace (g_print ''Found targets: '' [] (g_print unsupported_msg [] w)) @ es"
        "\<forall>e \<in> set es. \<exists>a. e = Print ''%s'' [a] \<or> e = Print '', '' []"
        using print_targets_trace by blast
      have none: "concat (map requested_of es) = []"
        using es(2) by (induction es) auto
      have "trace ?w' = trace w @
          ([Print unsupported_msg [], Print ''Found targets: '' []] @ es @ [Print ''\<newline>'' [], MainQuit])"
        using img None es(1)
        by (simp add: on_clipboard_received_targets_def find_image_target_eq find_text_target_eq)
      from seen_append(6) [OF this] img None none show ?thesis by simp
    qed
  qed
  moreover have "(\<exists>t \<in> set targets. prefix ''image/'' t) \<longrightarrow>
        (\<exists>t \<in> set targets. prefix ''image/'' t \<and> requested ?w' = requested w @ [t])"
  proof
    assume "\<exists>t \<in> set targets. prefix ''image/'' t"
    then obtain t where t: "?img = Some t"
      by (cases ?img) (auto simp: find_None_iff)
    then have "t \<in> set targets" "prefix ''image/'' t"
      by (auto simp: find_Some_iff)
    with sel t show "\<exists>t \<in> set targets. prefix ''image/'' t \<and> requested ?w' = requested w @ [t]"
      by auto
  qed
  ultimately show ?thesis by blast
qed

text \<open>A list with both text targets before two image targets: the first image target is requested.\<close>

theorem target_negotiation_witness:
  "(\<exists>t \<in> set [''UTF8_STRING'', ''text/plain'', ''image/png'', ''image/jpeg'']. prefix ''image/'' t)
   \<and> requested (on_clipboard_received_targets
        (constant_toolkit [] \<lparr>get_length = 0, get_pixbuf = None, get_text = None\<rparr> 0 None None (Inl []))
        [''UTF8_STRING'', ''text/plain'', ''image/png'', ''image/jpeg''] (init_world Map.empty))
      = [''image/png'']"
  using target_negotiation [of
      "constant_toolkit [] \<lparr>get_length = 0, get_pixbuf = None, get_text = None\<rparr> 0 None None (Inl [])"
      "[''UTF8_STRING'', ''text/plain'', ''image/png'', ''image/jpeg'']" "init_world Map.empty"]
  by (simp add: requested_def init_world_def)

subsection \<open>Saving text\<close>

text \<open>
  C2: when the text dialog is accepted with a filename, \<^verbatim>\<open>save_text\<close> makes one call of
  \<^verbatim>\<open>g_file_set_contents\<close>, for that filename and with the text payload as it is (no byte
  added, removed or changed, a trailing newline included); when the call succeeds the
  file holds exactly the payload, whatever it held before.
\<close>

theorem save_text_verbatim:
  assumes "dialog_run tk save_text_dialog = GTK_RESPONSE_ACCEPT"
    and "dialog_filename tk save_text_dialog = Some path"
  shows "writes (save_text tk text w) = writes w @ [(path, text)]
    \<and> (file_set_contents tk path text = None \<longrightarrow>
         files (save_text tk text w) = (files w)(path \<mapsto> text))"
proof (cases "file_set_contents tk path text")
  case None
  from save_text_written [OF assms None, of w]
  have "trace (save_text tk text w) = trace w @
      [RunDialog save_text_dialog, SetContents path text,
       Print ''Text successfully saved to: %s\<newline>'' [path], MainQuit]"
    and "files (save_text tk text w) = (files w)(path \<mapsto> text)"
    by simp_all
  with seen_append(4) [OF this(1)] show ?thesis by simp
next
  case (Some message)
  from save_text_failed(1) [OF assms Some, of w] seen_append(4) [OF save_text_failed(1) [OF assms Some, of w]]
  show ?thesis using Some by simp
qed

theorem save_text_verbatim_witness:
  "dialog_run (constant_toolkit [] \<lparr>get_length = 6, get_pixbuf = None, get_text = Some ''hello\<newline>''\<rparr>
       GTK_RESPONSE_ACCEPT (Some ''/tmp/out.txt'') None (Inl [])) save_text_dialog = GTK_RESPONSE_ACCEPT
   \<and> writes (save_text
        (constant_toolkit [] \<lparr>get_length = 6, get_pixbuf = None, get_text = Some ''hello\<newline>''\<rparr>
           GTK_RESPONSE_ACCEPT (Some ''/tmp/out.txt'') None (Inl []))
        ''hello\<newline>'' (init_world [''/tmp/out.txt'' \<mapsto> ''old contents'']))
      = [(''/tmp/out.txt'', ''hello\<newline>'')]
   \<and> files (save_text
        (constant_toolkit [] \<lparr>get_length = 6, get_pixbuf = None, get_text = Some ''hello\<newline>''\<rparr>
           GTK_RESPONSE_ACCEPT (Some ''/tmp/out.txt'') None (Inl []))
        ''hello\<newline>'' (init_world [''/tmp/out.txt'' \<mapsto> ''old contents''])) ''/tmp/out.txt''
      = Some ''hello\<newline>''"
  using save_text_verbatim [of
      "constant_toolkit [] \<lparr>get_length = 6, get_pixbuf = None, get_text = Some ''hello\<newline>''\<rparr>
           GTK_RESPONSE_ACCEPT (Some ''/tmp/out.txt'') None (Inl [])"
      "''/tmp/out.txt''" "''hello\<newline>''" "init_world [''/tmp/out.txt'' \<mapsto> ''old contents'']"]
  by simp

subsection \<open>Saving an image\<close>

text \<open>
  C3: when the image dialog is accepted with a filename, \<^verbatim>\<open>save_image\<close> calls the encoder
  once, with the format \<^verbatim>\<open>jpeg\<close> if the filename ends in \<^verbatim>\<open>.jpg\<close> or \<^verbatim>\<open>.jpeg\<close> and with
  the format \<^verbatim>\<open>png\<close> for every other filename.
\<close>

theorem save_image_format:
  assumes "dialog_run tk save_image_dialog = GTK_RESPONSE_ACCEPT"
    and "dialog_filename tk save_image_dialog = Some path"
  shows "encodings (save_image tk pb w) =
     encodings w @
     [(pb, path, if suffix ''.jpg'' path \<or> suffix ''.jpeg'' path then ''jpeg'' else ''png'')]"
proof -
  let ?format = "if suffix ''.jpg'' path \<or> suffix ''.jpeg'' path then ''jpeg'' else ''png''"
  show ?thesis
  proof (cases "pixbuf_save tk pb path ?format")
    case (Inl message)
    from seen_append(5) [OF save_image_failed(1) [OF assms refl Inl, of w]]
    show ?thesis by simp
  next
    case (Inr bytes)
    from seen_append(5) [OF save_image_written(1) [OF assms refl Inr, of w]]
    show ?thesis by simp
  qed
qed

theorem save_image_format_witness:
  "encodings (save_image
      (constant_toolkit [] \<lparr>get_length = 1, get_pixbuf = None, get_text = None\<rparr>
         GTK_RESPONSE_ACCEPT (Some ''/tmp/photo.jpeg'') None (Inr ''bytes''))
      \<lparr>width = 1, height = 1, pixels = [0]\<rparr> (init_world Map.empty))
     = [(\<lparr>width = 1, height = 1, pixels = [0]\<rparr>, ''/tmp/photo.jpeg'', ''jpeg'')]
   \<and> encodings (save_image
      (constant_toolkit [] \<lparr>get_length = 1, get_pixbuf = None, get_text = None\<rparr>
         GTK_RESPONSE_ACCEPT (Some ''/tmp/photo.JPG'') None (Inr ''bytes''))
      \<lparr>width = 1, height = 1, pixels = [0]\<rparr> (init_world Map.empty))
     = [(\<lparr>width = 1, height = 1, pixels = [0]\<rparr>, ''/tmp/photo.JPG'', ''png'')]"
  using save_image_format [of
      "constant_toolkit [] \<lparr>get_length = 1, get_pixbuf = None, get_text = None\<rparr>
         GTK_RESPONSE_ACCEPT (Some ''/tmp/photo.jpeg'') None (Inr ''bytes'')"
      "''/tmp/photo.jpeg''" "\<lparr>width = 1, height = 1, pixels = [0]\<rparr>" "init_world Map.empty"]
    save_image_format [of
      "constant_toolkit [] \<lparr>get_length = 1, get_pixbuf = None, get_text = None\<rparr>
         GTK_RESPONSE_ACCEPT (Some ''/tmp/photo.JPG'') None (Inr ''bytes'')"
      "''/tmp/photo.JPG''" "\<lparr>width = 1, height = 1, pixels = [0]\<rparr>" "init_world Map.empty"]
  by (simp add: suffix_def Cons_eq_append_conv)

subsection \<open>Content of length zero\<close>

text \<open>
  C4: selection data of length zero makes the content callback print the "empty or
  unsupported" message and quit the main loop, which then returns; it runs no dialog,
  prints no list of targets and leaves the files alone. The resulting world is the one
  reached for selection data that is neither an image nor text.
\<close>

theorem empty_payload_is_no_content:
  assumes "get_length selection = 0"
  shows "trace (on_clipboard_received_content tk selection w) =
           trace w @ [Print ''Clipboard is empty or contains an unsupported format.\<newline>'' [], MainQuit]
    \<and> stdout (on_clipboard_received_content tk selection w) =
           stdout w @ ''Clipboard is empty or contains an unsupported format.\<newline>''
    \<and> dialogs (on_clipboard_received_content tk selection w) = dialogs w
    \<and> files (on_clipboard_received_content tk selection w) = files w
    \<and> gtk_main tk (on_clipboard_received_content tk selection w) =
           Some (on_clipboard_received_content tk selection w)
    \<and> (\<forall>other. get_length other \<noteq> 0 \<and> get_pixbuf other = None \<and> get_text other = None \<longrightarrow>
           on_clipboard_received_content tk other w = on_clipboard_received_content tk selection w)"
proof -
  let ?w' = "on_clipboard_received_content tk selection w"
  have eq: "?w' = gtk_main_quit (g_print unsupported_msg [] w)"
    using assms by (simp add: on_clipboard_received_content_def)
  then have tr: "trace ?w' =
      trace w @ [Print ''Clipboard is empty or contains an unsupported format.\<newline>'' [], MainQuit]"
    by (simp add: unsupported_msg_def)
  have "quit ?w'" using eq by simp
  then have "gtk_main tk ?w' = Some ?w'" by (rule gtk_main_returns)
  moreover have "files ?w' = files w" using eq by simp
  moreover have "\<forall>other. get_length other \<noteq> 0 \<and> get_pixbuf other = None \<and> get_text other = None \<longrightarrow>
           on_clipboard_received_content tk other w = ?w'"
    using eq by (simp add: on_clipboard_received_content_def)
  ultimately show ?thesis
    using tr seen_append(1) [OF tr] seen_append(3) [OF tr] by simp
qed

theorem empty_payload_is_no_content_witness:
  "stdout (on_clipboard_received_content
      (constant_toolkit [''text/plain''] \<lparr>get_length = 0, get_pixbuf = None, get_text = Some []\<rparr>
         GTK_RESPONSE_ACCEPT (Some ''/tmp/out.txt'') None (Inl []))
      \<lparr>get_length = 0, get_pixbuf = None, get_text = Some []\<rparr> (init_world Map.empty))
     = ''Clipboard is empty or contains an unsupported format.\<newline>''
   \<and> dialogs (on_clipboard_received_content
      (constant_toolkit [''text/plain''] \<lparr>get_length = 0, get_pixbuf = None, get_text = Some []\<rparr>
         GTK_RESPONSE_ACCEPT (Some ''/tmp/out.txt'') None (Inl []))
      \<lparr>get_length = 0, get_pixbuf = None, get_text = Some []\<rparr> (init_world Map.empty)) = []
   \<and> on_clipboard_received_content
      (constant_toolkit [''text/plain''] \<lparr>get_length = 0, get_pixbuf = None, get_text = Some []\<rparr>
         GTK_RESPONSE_ACCEPT (Some ''/tmp/out.txt'') None (Inl []))
      \<lparr>get_length = 7, get_pixbuf = None, get_text = None\<rparr> (init_world Map.empty)
     = on_clipboard_received_content
      (constant_toolkit [''text/plain''] \<lparr>get_length = 0, get_pixbuf = None, get_text = Some []\<rparr>
         GTK_RESPONSE_ACCEPT (Some ''/tmp/out.txt'') None (Inl []))
      \<lparr>get_length = 0, get_pixbuf = None, get_text = Some []\<rparr> (init_world Map.empty)"
  using empty_payload_is_no_content [of
      "\<lparr>get_length = 0, get_pixbuf = None, get_text = Some []\<rparr>"
      "constant_toolkit [''text/plain''] \<lparr>get_length = 0, get_pixbuf = None, get_text = Some []\<rparr>
         GTK_RESPONSE_ACCEPT (Some ''/tmp/out.txt'') None (Inl [])"
      "init_world Map.empty"]
  by simp

subsection \<open>Cancellation, failure and a missing filename\<close>

text \<open>
  C6: when the dialog of \<^verbatim>\<open>save_text\<close> or of \<^verbatim>\<open>save_image\<close> returns anything but
  \<^verbatim>\<open>GTK_RESPONSE_ACCEPT\<close>, the routine calls neither \<^verbatim>\<open>g_file_set_contents\<close> nor
  \<^verbatim>\<open>gdk_pixbuf_save\<close>, leaves the files as they were, prints its "canceled" message on
  standard output and quits the main loop, which returns.
\<close>

theorem cancel_writes_nothing:
  "(dialog_run tk save_text_dialog \<noteq> GTK_RESPONSE_ACCEPT \<longrightarrow>
      trace (save_text tk text w) =
        trace w @ [RunDialog save_text_dialog, Print ''Text save canceled.\<newline>'' [], MainQuit]
      \<and> stdout (save_text tk text w) = stdout w @ ''Text save canceled.\<newline>''
      \<and> writes (save_text tk text w) = writes w
      \<and> encodings (save_text tk text w) = encodings w
      \<and> files (save_text tk text w) = files w
      \<and> gtk_main tk (save_text tk text w) = Some (save_text tk text w))
   \<and> (dialog_run tk save_image_dialog \<noteq> GTK_RESPONSE_ACCEPT \<longrightarrow>
      trace (save_image tk pb w) =
        trace w @ [RunDialog save_image_dialog, Print ''Image save canceled.\<newline>'' [], MainQuit]
      \<and> stdout (save_image tk pb w) = stdout w @ ''Image save canceled.\<newline>''
      \<and> writes (save_image tk pb w) = writes w
      \<and> encodings (save_image tk pb w) = encodings w
      \<and> files (save_image tk pb w) = files w
      \<and> gtk_main tk (save_image tk pb w) = Some (save_image tk pb w))"
proof (intro conjI impI)
  assume c: "dialog_run tk save_text_dialog \<noteq> GTK_RESPONSE_ACCEPT"
  note tr = save_text_canceled(1) [OF c, of "text" w]
  show "trace (save_text tk text w) =
        trace w @ [RunDialog save_text_dialog, Print ''Text save canceled.\<newline>'' [], MainQuit]"
    by (rule tr)
  show "stdout (save_text tk text w) = stdout w @ ''Text save canceled.\<newline>''"
    using seen_append(1) [OF tr] by simp
  show "writes (save_text tk text w) = writes w"
    using seen_append(4) [OF tr] by simp
  show "encodings (save_text tk text w) = encodings w"
    using seen_append(5) [OF tr] by simp
  show "files (save_text tk text w) = files w"
    by (rule save_text_canceled(2) [OF c])
  show "gtk_main tk (save_text tk text w) = Some (save_text tk text w)"
    by (rule gtk_main_returns) simp
next
  assume c: "dialog_run tk save_image_dialog \<noteq> GTK_RESPONSE_ACCEPT"
  note tr = save_image_canceled(1) [OF c, of pb w]
  show "trace (save_image tk pb w) =
        trace w @ [RunDialog save_image_dialog, Print ''Image save canceled.\<newline>'' [], MainQuit]"
    by (rule tr)
  show "stdout (save_image tk pb w) = stdout w @ ''Image save canceled.\<newline>''"
    using seen_append(1) [OF tr] by simp
  show "writes (save_image tk pb w) = writes w"
    using seen_append(4) [OF tr] by simp
  show "encodings (save_image tk pb w) = encodings w"
    using seen_append(5) [OF tr] by simp
  show "files (save_image tk pb w) = files w"
    by (rule save_image_canceled(2) [OF c])
  show "gtk_main tk (save_image tk pb w) = Some (save_image tk pb w)"
    by (rule gtk_main_returns) simp
qed

text \<open>A run of each routine with the response \<^verbatim>\<open>GTK_RESPONSE_CANCEL\<close>, which is \<open>-6\<close>.\<close>

theorem cancel_writes_nothing_witness:
  "stdout (save_text (constant_toolkit [] \<lparr>get_length = 1, get_pixbuf = None, get_text = None\<rparr>
              (- 6) None None (Inl [])) ''hello'' (init_world [''/tmp/out.txt'' \<mapsto> ''old'']))
     = ''Text save canceled.\<newline>''
   \<and> files (save_text (constant_toolkit [] \<lparr>get_length = 1, get_pixbuf = None, get_text = None\<rparr>
              (- 6) None None (Inl [])) ''hello'' (init_world [''/tmp/out.txt'' \<mapsto> ''old'']))
     = [''/tmp/out.txt'' \<mapsto> ''old'']
   \<and> stdout (save_image (constant_toolkit [] \<lparr>get_length = 1, get_pixbuf = None, get_text = None\<rparr>
              (- 6) None None (Inl [])) \<lparr>width = 1, height = 1, pixels = [0]\<rparr>
              (init_world [''/tmp/out.txt'' \<mapsto> ''old'']))
     = ''Image save canceled.\<newline>''
   \<and> encodings (save_image (constant_toolkit [] \<lparr>get_length = 1, get_pixbuf = None, get_text = None\<rparr>
              (- 6) None None (Inl [])) \<lparr>width = 1, height = 1, pixels = [0]\<rparr>
              (init_world [''/tmp/out.txt'' \<mapsto> ''old''])) = []"
  using cancel_writes_nothing [of
      "constant_toolkit [] \<lparr>get_length = 1, get_pixbuf = None, get_text = None\<rparr> (- 6) None None (Inl [])"
      "''hello''" "init_world [''/tmp/out.txt'' \<mapsto> ''old'']" "\<lparr>width = 1, height = 1, pixels = [0]\<rparr>"]
  by (simp add: GTK_RESPONSE_ACCEPT_def)

text \<open>
  C7: when the write of \<^verbatim>\<open>save_text\<close> or the encoding of \<^verbatim>\<open>save_image\<close> fails, the routine
  prints the error message of the failed call on standard error (after "Error saving
  text file: " or "Error saving image: "), prints nothing on standard output, has made
  that one call and no other write, has run its one dialog, and quits the main loop,
  which returns.
\<close>

theorem failure_is_reported_once:
  "(dialog_run tk save_text_dialog = GTK_RESPONSE_ACCEPT
      \<and> dialog_filename tk save_text_dialog = Some path
      \<and> file_set_contents tk path text = Some message \<longrightarrow>
      stderr (save_text tk text w) = stderr w @ ''Error saving text file: '' @ message @ ''\<newline>''
      \<and> stdout (save_text tk text w) = stdout w
      \<and> writes (save_text tk text w) = writes w @ [(path, text)]
      \<and> encodings (save_text tk text w) = encodings w
      \<and> dialogs (save_text tk text w) = dialogs w @ [save_text_dialog]
      \<and> gtk_main tk (save_text tk text w) = Some (save_text tk text w))
   \<and> (dialog_run tk save_image_dialog = GTK_RESPONSE_ACCEPT
      \<and> dialog_filename tk save_image_dialog = Some path
      \<and> format = (if suffix ''.jpg'' path \<or> suffix ''.jpeg'' path then ''jpeg'' else ''png'')
      \<and> pixbuf_save tk pb path format = Inl message \<longrightarrow>
      stderr (save_image tk pb w) = stderr w @ ''Error saving image: '' @ message @ ''\<newline>''
      \<and> stdout (save_image tk pb w) = stdout w
      \<and> writes (save_image tk pb w) = writes w
      \<and> encodings (save_image tk pb w) = encodings w @ [(pb, path, format)]
      \<and> dialogs (save_image tk pb w) = dialogs w @ [save_image_dialog]
      \<and> gtk_main tk (save_image tk pb w) = Some (save_image tk pb w))"
proof (intro conjI impI; (elim conjE)?)
  assume a: "dialog_run tk save_text_dialog = GTK_RESPONSE_ACCEPT"
    "dialog_filename tk save_text_dialog = Some path"
    "file_set_contents tk path text = Some message"
  note tr = save_text_failed(1)[OF a, of w]
  show "stderr (save_text tk text w) = stderr w @ ''Error saving text file: '' @ message @ ''\<newline>''"
    using seen_append(2)[OF tr] by simp
  show "stdout (save_text tk text w) = stdout w"
    using seen_append(1)[OF tr] by simp
  show "writes (save_text tk text w) = writes w @ [(path, text)]"
    using seen_append(4)[OF tr] by simp
  show "encodings (save_text tk text w) = encodings w"
    using seen_append(5)[OF tr] by simp
  show "dialogs (save_text tk text w) = dialogs w @ [save_text_dialog]"
    using seen_append(3)[OF tr] by simp
  show "gtk_main tk (save_text tk text w) = Some (save_text tk text w)"
    by (rule gtk_main_returns) simp
next
  assume a: "dialog_run tk save_image_dialog = GTK_RESPONSE_ACCEPT"
    "dialog_filename tk save_image_dialog = Some path"
    "format = (if suffix ''.jpg'' path \<or> suffix ''.jpeg'' path then ''jpeg'' else ''png'')"
    "pixbuf_save tk pb path format = Inl message"
  note tr = save_image_failed(1)[OF a, of w]
  show "stderr (save_image tk pb w) = stderr w @ ''Error saving image: '' @ message @ ''\<newline>''"
    using seen_append(2)[OF tr] by simp
  show "stdout (save_image tk pb w) = stdout w"
    using seen_append(1)[OF tr] by simp
  show "writes (save_image tk pb w) = writes w"
    using seen_append(4)[OF tr] by simp
  show "encodings (save_image tk pb w) = encodings w @ [(pb, path, format)]"
    using seen_append(5)[OF tr] by simp
  show "dialogs (save_image tk pb w) = dialogs w @ [save_image_dialog]"
    using seen_append(3)[OF tr] by simp
  show "gtk_main tk (save_image tk pb w) = Some (save_image tk pb w)"
    by (rule gtk_main_returns) simp
qed

theorem failure_is_reported_once_witness:
  "stderr (save_text (constant_toolkit [] \<lparr>get_length = 1, get_pixbuf = None, get_text = None\<rparr>
              GTK_RESPONSE_ACCEPT (Some ''/out.txt'') (Some ''Permission denied'') (Inl ''Disk full''))
              ''hello'' (init_world Map.empty))
     = ''Error saving text file: Permission denied\<newline>''
   \<and> writes (save_text (constant_toolkit [] \<lparr>get_length = 1, get_pixbuf = None, get_text = None\<rparr>
              GTK_RESPONSE_ACCEPT (Some ''/out.txt'') (Some ''Permission denied'') (Inl ''Disk full''))
              ''hello'' (init_world Map.empty))
     = [(''/out.txt'', ''hello'')]
   \<and> stderr (save_image (constant_toolkit [] \<lparr>get_length = 1, get_pixbuf = None, get_text = None\<rparr>
              GTK_RESPONSE_ACCEPT (Some ''/out.txt'') (Some ''Permission denied'') (Inl ''Disk full''))
              \<lparr>width = 1, height = 1, pixels = [0]\<rparr> (init_world Map.empty))
     = ''Error saving image: Disk full\<newline>''
   \<and> encodings (save_image (constant_toolkit [] \<lparr>get_length = 1, get_pixbuf = None, get_text = None\<rparr>
              GTK_RESPONSE_ACCEPT (Some ''/out.txt'') (Some ''Permission denied'') (Inl ''Disk full''))
              \<lparr>width = 1, height = 1, pixels = [0]\<rparr> (init_world Map.empty))
     = [(\<lparr>width = 1, height = 1, pixels = [0]\<rparr>, ''/out.txt'', ''png'')]"
  using failure_is_reported_once [of
      "constant_toolkit [] \<lparr>get_length = 1, get_pixbuf = None, get_text = None\<rparr>
              GTK_RESPONSE_ACCEPT (Some ''/out.txt'') (Some ''Permission denied'') (Inl ''Disk full'')"
      "''/out.txt''" "''hello''" "''Permission denied''" "init_world Map.empty" "''png''"
      "\<lparr>width = 1, height = 1, pixels = [0]\<rparr>"]
    failure_is_reported_once [of
      "constant_toolkit [] \<lparr>get_length = 1, get_pixbuf = None, get_text = None\<rparr>
              GTK_RESPONSE_ACCEPT (Some ''/out.txt'') (Some ''Permission denied'') (Inl ''Disk full'')"
      "''/out.txt''" "''hello''" "''Disk full''" "init_world Map.empty" "''png''"
      "\<lparr>width = 1, height = 1, pixels = [0]\<rparr>"]
  by (simp add: suffix_def Cons_eq_append_conv)

text \<open>
  C10: when the dialog of \<^verbatim>\<open>save_text\<close> or of \<^verbatim>\<open>save_image\<close> is accepted and
  \<^verbatim>\<open>gtk_file_chooser_get_filename\<close> returns \<^verbatim>\<open>NULL\<close>, the routine only runs the dialog and
  quits the main loop: nothing is printed on standard output or standard error, no file
  changes, and the main loop returns.
\<close>

theorem accepted_without_filename:
  "(dialog_run tk save_text_dialog = GTK_RESPONSE_ACCEPT
      \<and> dialog_filename tk save_text_dialog = None \<longrightarrow>
      trace (save_text tk text w) = trace w @ [RunDialog save_text_dialog, MainQuit]
      \<and> stdout (save_text tk text w) = stdout w
      \<and> stderr (save_text tk text w) = stderr w
      \<and> files (save_text tk text w) = files w
      \<and> gtk_main tk (save_text tk text w) = Some (save_text tk text w))
   \<and> (dialog_run tk save_image_dialog = GTK_RESPONSE_ACCEPT
      \<and> dialog_filename tk save_image_dialog = None \<longrightarrow>
      trace (save_image tk pb w) = trace w @ [RunDialog save_image_dialog, MainQuit]
      \<and> stdout (save_image tk pb w) = stdout w
      \<and> stderr (save_image tk pb w) = stderr w
      \<and> files (save_image tk pb w) = files w
      \<and> gtk_main tk (save_image tk pb w) = Some (save_image tk pb w))"
proof (intro conjI impI; (elim conjE)?)
  assume a: "dialog_run tk save_text_dialog = GTK_RESPONSE_ACCEPT"
    "dialog_filename tk save_text_dialog = None"
  note tr = save_text_no_filename(1)[OF a, of "text" w]
  show "trace (save_text tk text w) = trace w @ [RunDialog save_text_dialog, MainQuit]"
    by (rule tr)
  show "stdout (save_text tk text w) = stdout w"
    using seen_append(1)[OF tr] by simp
  show "stderr (save_text tk text w) = stderr w"
    using seen_append(2)[OF tr] by simp
  show "files (save_text tk text w) = files w"
    by (rule save_text_no_filename(2)[OF a])
  show "gtk_main tk (save_text tk text w) = Some (save_text tk text w)"
    by (rule gtk_main_returns) simp
next
  assume a: "dialog_run tk save_image_dialog = GTK_RESPONSE_ACCEPT"
    "dialog_filename tk save_image_dialog = None"
  note tr = save_image_no_filename(1)[OF a, of pb w]
  show "trace (save_image tk pb w) = trace w @ [RunDialog save_image_dialog, MainQuit]"
    by (rule tr)
  show "stdout (save_image tk pb w) = stdout w"
    using seen_append(1)[OF tr] by simp
  show "stderr (save_image tk pb w) = stderr w"
    using seen_append(2)[OF tr] by simp
  show "files (save_image tk pb w) = files w"
    by (rule save_image_no_filename(2)[OF a])
  show "gtk_main tk (save_image tk pb w) = Some (save_image tk pb w)"
    by (rule gtk_main_returns) simp
qed

theorem accepted_without_filename_witness:
  "trace (save_text (constant_toolkit [] \<lparr>get_length = 1, get_pixbuf = None, get_text = None\<rparr>
              GTK_RESPONSE_ACCEPT None None (Inl []))
              ''hello'' (init_world Map.empty))
     = [RunDialog save_text_dialog, MainQuit]
   \<and> trace (save_image (constant_toolkit [] \<lparr>get_length = 1, get_pixbuf = None, get_text = None\<rparr>
              GTK_RESPONSE_ACCEPT None None (Inl []))
              \<lparr>width = 1, height = 1, pixels = [0]\<rparr> (init_world Map.empty))
     = [RunDialog save_image_dialog, MainQuit]"
  using accepted_without_filename [of
      "constant_toolkit [] \<lparr>get_length = 1, get_pixbuf = None, get_text = None\<rparr>
              GTK_RESPONSE_ACCEPT None None (Inl [])"
      "''hello''" "init_world Map.empty" "\<lparr>width = 1, height = 1, pixels = [0]\<rparr>"]
  by simp

subsection \<open>Whole runs\<close>

text \<open>
  C5: when \<^verbatim>\<open>gtk_init\<close> has opened the display (so that a target list is delivered) and
  no offered target starts with \<^verbatim>\<open>image/\<close> and none is \<^verbatim>\<open>text/plain\<close> or
  \<^verbatim>\<open>UTF8_STRING\<close>, the run ends with exit code 0 after printing the "empty or unsupported"
  line and the line \<^verbatim>\<open>Found targets:\<close> with every offered name, in order, separated by
  commas; it requests no content, runs no dialog, calls neither write function and
  leaves the files as they were.
\<close>

theorem no_usable_target_is_reported:
  assumes "display_opens tk argv"
    and "\<forall>t \<in> set (clipboard_targets tk).
             \<not> prefix ''image/'' t \<and> t \<noteq> ''text/plain'' \<and> t \<noteq> ''UTF8_STRING''"
  shows "\<exists>w. main tk argv fs = Some (w, 0)
    \<and> stdout w =
        ''Clipboard is empty or contains an unsupported format.\<newline>'' @ ''Found targets: ''
          @ comma_separated (clipboard_targets tk) @ ''\<newline>''
    \<and> stderr w = []
    \<and> requested w = []
    \<and> dialogs w = []
    \<and> writes w = []
    \<and> encodings w = []
    \<and> files w = fs
    \<and> quits w = 1"
proof -
  let ?ts = "clipboard_targets tk"
  let ?start = "(gtk_clipboard_request_targets (init_world fs))\<lparr>pending := []\<rparr>"
  let ?w = "on_clipboard_received_targets tk ?ts ?start"
  have img: "find_image_target ?ts = None"
    using assms(2) by (simp add: find_image_target_eq find_None_iff)
  have no_text: "find_text_target ?ts = None"
    using assms(2) by (auto simp add: find_text_target_eq find_None_iff)
  obtain es where es:
    "trace ?w = trace ?start @ [Print unsupported_msg [], Print ''Found targets: '' []] @ es
        @ [Print ''\<newline>'' [], MainQuit]"
    "concat (map stdout_of es) = comma_separated ?ts"
    "\<forall>e \<in> set es. \<exists>a. e = Print ''%s'' [a] \<or> e = Print '', '' []"
    using on_clipboard_received_targets_none(1)[OF img no_text, of tk ?start] by blast
  have tr: "trace ?w = trace (init_world fs) @
      ([RequestTargets, Print unsupported_msg [], Print ''Found targets: '' []] @ es
        @ [Print ''\<newline>'' [], MainQuit])"
    using es(1) by simp
  note names = target_names_only[OF es(3)]
  have "main tk argv fs = Some (?w, 0)" by (rule main_no_target[OF assms(1) img no_text])
  moreover have "stdout ?w =
        ''Clipboard is empty or contains an unsupported format.\<newline>'' @ ''Found targets: ''
          @ comma_separated ?ts @ ''\<newline>''"
    using seen_append(1)[OF tr] es(2) by (simp add: unsupported_msg_def)
  moreover have "stderr ?w = []" using seen_append(2)[OF tr] names by simp
  moreover have "requested ?w = []" using seen_append(6)[OF tr] names by simp
  moreover have "dialogs ?w = []" using seen_append(3)[OF tr] names by simp
  moreover have "writes ?w = []" using seen_append(4)[OF tr] names by simp
  moreover have "encodings ?w = []" using seen_append(5)[OF tr] names by simp
  moreover have "files ?w = fs"
    using on_clipboard_received_targets_none(3)[OF img no_text, of tk ?start] by simp
  moreover have "quits ?w = 1" using seen_append(7)[OF tr] names by simp
  ultimately show ?thesis by blast
qed

theorem no_usable_target_is_reported_witness:
  "\<exists>w. main (constant_toolkit [''TARGETS'', ''text/html'', ''TIMESTAMP'']
                \<lparr>get_length = 1, get_pixbuf = None, get_text = Some ''x''\<rparr>
                GTK_RESPONSE_ACCEPT (Some ''/tmp/out.txt'') None (Inl []))
             [''savecb''] Map.empty = Some (w, 0)
     \<and> stdout w = ''Clipboard is empty or contains an unsupported format.\<newline>''
          @ ''Found targets: TARGETS, text/html, TIMESTAMP\<newline>''
     \<and> stderr w = [] \<and> requested w = [] \<and> dialogs w = [] \<and> writes w = []
     \<and> encodings w = [] \<and> files w = Map.empty \<and> quits w = 1"
  using no_usable_target_is_reported [of
      "constant_toolkit [''TARGETS'', ''text/html'', ''TIMESTAMP'']
                   \<lparr>get_length = 1, get_pixbuf = None, get_text = Some ''x''\<rparr>
                   GTK_RESPONSE_ACCEPT (Some ''/tmp/out.txt'') None (Inl [])"
      "[''savecb'']" Map.empty]
  by simp

text \<open>
  C8 as stated asks that every run ends in one attempted save that is successful,
  canceled or failed, or in one report that nothing usable was found. A run in which the
  text dialog is accepted and no filename comes back ends otherwise: the dialog is run,
  nothing is written, and none of the success, cancellation, error and "empty or
  unsupported" messages is printed.
\<close>

theorem silent_run_counterexample:
  "map_option (trace \<circ> fst)
     (main (constant_toolkit [''text/plain'']
              \<lparr>get_length = 5, get_pixbuf = None, get_text = Some ''hello''\<rparr>
              GTK_RESPONSE_ACCEPT None None (Inl []))
        [''savecb''] (map_of [])) =
     Some [RequestTargets, RequestContents ''text/plain'',
           Print ''Text data detected. Opening save dialog...\<newline>'' [],
           RunDialog save_text_dialog, MainQuit]
   \<and> map_option (terminal_msgs \<circ> fst)
     (main (constant_toolkit [''text/plain'']
              \<lparr>get_length = 5, get_pixbuf = None, get_text = Some ''hello''\<rparr>
              GTK_RESPONSE_ACCEPT None None (Inl []))
        [''savecb''] (map_of [])) = Some []"
proof -
  let ?tk = "constant_toolkit [''text/plain'']
              \<lparr>get_length = 5, get_pixbuf = None, get_text = Some ''hello''\<rparr>
              GTK_RESPONSE_ACCEPT None None (Inl [])"
  let ?asked = "(gtk_clipboard_request_contents ''text/plain''
      ((gtk_clipboard_request_targets (init_world (map_of [])))\<lparr>pending := []\<rparr>))\<lparr>pending := []\<rparr>"
  let ?p = "g_print ''Text data detected. Opening save dialog...\<newline>'' [] ?asked"
  let ?final = "on_clipboard_received_content ?tk (clipboard_contents ?tk ''text/plain'') ?asked"
  have run: "main ?tk [''savecb''] (map_of []) = Some (?final, 0)"
    by (rule main_target) simp_all
  have "?final = save_text ?tk ''hello'' ?p"
    by (simp add: on_clipboard_received_content_def)
  moreover have "trace (save_text ?tk ''hello'' ?p) = trace ?p @ [RunDialog save_text_dialog, MainQuit]"
    by (rule save_text_no_filename(1)) simp_all
  ultimately have tr: "trace ?final =
      [RequestTargets, RequestContents ''text/plain'',
       Print ''Text data detected. Opening save dialog...\<newline>'' [],
       RunDialog save_text_dialog, MainQuit]"
    by simp
  then have "terminal_msgs ?final = []"
    by (simp add: terminal_msgs_def is_terminal_msg_def unsupported_msg_def)
  with run tr show ?thesis by simp
qed

text \<open>
  C8, amended: every run in which \<^verbatim>\<open>gtk_init\<close> opens the display returns with status 0,
  having called \<^verbatim>\<open>gtk_main_quit\<close> exactly once, as its last action, with no request left
  pending, at most one content request, at most one dialog and at most one of the
  messages that end a run. It ends in exactly one of these outcomes (any two of them
  differ in the dialog run or in the messages printed):
  \<^item> nothing usable was found: no dialog, no write call, the files as they were, and the
    "empty or unsupported" message;
  \<^item> a canceled save, of text or of an image: its dialog, a response other than accept,
    no write call, the files as they were, and its "canceled" message;
  \<^item> an accepted dialog that returned no filename, for text or for an image: its dialog,
    no write call, the files as they were, and none of the messages;
  \<^item> a successful save: the dialog accepted with a filename, the one write or encoder
    call for that filename, which succeeded, the file holding what was written, and
    the success message for that filename;
  \<^item> a failed save: the dialog accepted with a filename, the one write or encoder call
    for that filename, which failed, and the error message of that call.
  When \<^verbatim>\<open>gtk_init\<close> cannot open the display, the process ends with status 1 before the
  program has made any call.
\<close>

theorem one_outcome_per_run:
  "if display_opens tk argv then
     (\<exists>w. main tk argv fs = Some (w, 0)
        \<and> quits w = 1 \<and> (\<exists>es. trace w = es @ [MainQuit]) \<and> pending w = []
        \<and> length (requested w) \<le> 1 \<and> length (dialogs w) \<le> 1
        \<and> length (terminal_msgs w) \<le> 1
        \<and> (dialogs w = [] \<and> writes w = [] \<and> encodings w = [] \<and> files w = fs
              \<and> terminal_msgs w =
                  [Print ''Clipboard is empty or contains an unsupported format.\<newline>'' []]
          \<or> dialogs w = [save_text_dialog]
              \<and> dialog_run tk save_text_dialog \<noteq> GTK_RESPONSE_ACCEPT
              \<and> writes w = [] \<and> encodings w = [] \<and> files w = fs
              \<and> terminal_msgs w = [Print ''Text save canceled.\<newline>'' []]
          \<or> dialogs w = [save_text_dialog]
              \<and> dialog_run tk save_text_dialog = GTK_RESPONSE_ACCEPT
              \<and> dialog_filename tk save_text_dialog = None
              \<and> writes w = [] \<and> encodings w = [] \<and> files w = fs
              \<and> terminal_msgs w = []
          \<or> (\<exists>path payload. dialogs w = [save_text_dialog]
              \<and> dialog_run tk save_text_dialog = GTK_RESPONSE_ACCEPT
              \<and> dialog_filename tk save_text_dialog = Some path
              \<and> file_set_contents tk path payload = None
              \<and> writes w = [(path, payload)] \<and> encodings w = []
              \<and> files w = fs(path \<mapsto> payload)
              \<and> terminal_msgs w = [Print ''Text successfully saved to: %s\<newline>'' [path]])
          \<or> (\<exists>path payload message. dialogs w = [save_text_dialog]
              \<and> dialog_run tk save_text_dialog = GTK_RESPONSE_ACCEPT
              \<and> dialog_filename tk save_text_dialog = Some path
              \<and> file_set_contents tk path payload = Some message
              \<and> writes w = [(path, payload)] \<and> encodings w = []
              \<and> terminal_msgs w = [PrintErr ''Error saving text file: %s\<newline>'' [message]])
          \<or> dialogs w = [save_image_dialog]
              \<and> dialog_run tk save_image_dialog \<noteq> GTK_RESPONSE_ACCEPT
              \<and> writes w = [] \<and> encodings w = [] \<and> files w = fs
              \<and> terminal_msgs w = [Print ''Image save canceled.\<newline>'' []]
          \<or> dialogs w = [save_image_dialog]
              \<and> dialog_run tk save_image_dialog = GTK_RESPONSE_ACCEPT
              \<and> dialog_filename tk save_image_dialog = None
              \<and> writes w = [] \<and> encodings w = [] \<and> files w = fs
              \<and> terminal_msgs w = []
          \<or> (\<exists>path pb format bytes. dialogs w = [save_image_dialog]
              \<and> dialog_run tk save_image_dialog = GTK_RESPONSE_ACCEPT
              \<and> dialog_filename tk save_image_dialog = Some path
              \<and> pixbuf_save tk pb path format = Inr bytes
              \<and> writes w = [] \<and> encodings w = [(pb, path, format)]
              \<and> files w = fs(path \<mapsto> bytes)
              \<and> terminal_msgs w = [Print ''Image successfully saved to: %s\<newline>'' [path]])
          \<or> (\<exists>path pb format message. dialogs w = [save_image_dialog]
              \<and> dialog_run tk save_image_dialog = GTK_RESPONSE_ACCEPT
              \<and> dialog_filename tk save_image_dialog = Some path
              \<and> pixbuf_save tk pb path format = Inl message
              \<and> writes w = [] \<and> encodings w = [(pb, path, format)]
              \<and> terminal_msgs w = [PrintErr ''Error saving image: %s\<newline>'' [message]])))
   else main tk argv fs = Some (init_world fs, 1)"
proof (cases "display_opens tk argv")
  case False
  then show ?thesis by (simp add: main_no_display)
next
  case True
  note opens = this
  let ?start = "(gtk_clipboard_request_targets (init_world fs))\<lparr>pending := []\<rparr>"
  show ?thesis
  proof (cases "find_image_target (clipboard_targets tk) = None
      \<and> find_text_target (clipboard_targets tk) = None")
    case True
    then have neither: "find_image_target (clipboard_targets tk) = None"
      "find_text_target (clipboard_targets tk) = None"
      by simp_all
    let ?w = "on_clipboard_received_targets tk (clipboard_targets tk) ?start"
    obtain es where es:
      "trace ?w = trace ?start @ [Print unsupported_msg [], Print ''Found targets: '' []] @ es
          @ [Print ''\<newline>'' [], MainQuit]"
      "\<forall>e \<in> set es. \<exists>a. e = Print ''%s'' [a] \<or> e = Print '', '' []"
      using on_clipboard_received_targets_none(1)[OF neither, where tk = tk and w = ?start]
      by blast
    have tr: "trace ?w = [RequestTargets, Print unsupported_msg [], Print ''Found targets: '' []]
        @ es @ [Print ''\<newline>'' [], MainQuit]"
      using es(1) by simp
    note names = target_names_only[OF es(2)]
    note seen = seen_from_start[OF tr]
    have run: "main tk argv fs = Some (?w, 0)" by (rule main_no_target[OF opens neither])
    have "quits ?w = 1" using seen(5) names by simp
    moreover have "\<exists>es. trace ?w = es @ [MainQuit]" using tr by simp
    moreover have "pending ?w = []"
      using on_clipboard_received_targets_none(4)[OF neither, where tk = tk and w = ?start]
      by simp
    moreover have "requested ?w = []" using seen(4) names by simp
    moreover have "dialogs ?w = []" using seen(1) names by simp
    moreover have "writes ?w = []" using seen(2) names by simp
    moreover have "encodings ?w = []" using seen(3) names by simp
    moreover have "files ?w = fs"
      using on_clipboard_received_targets_none(3)[OF neither, where tk = tk and w = ?start]
      by simp
    moreover have "terminal_msgs ?w =
        [Print ''Clipboard is empty or contains an unsupported format.\<newline>'' []]"
      using seen(6) names by (simp add: unsupported_msg_def [symmetric])
    ultimately show ?thesis using opens run by simp
  next
    case False
    then obtain t where selected:
      "(if find_image_target (clipboard_targets tk) = None
        then find_text_target (clipboard_targets tk)
        else find_image_target (clipboard_targets tk)) = Some t"
      using selection_exists by blast
    let ?asked = "(gtk_clipboard_request_contents t ?start)\<lparr>pending := []\<rparr>"
    let ?w = "on_clipboard_received_content tk (clipboard_contents tk t) ?asked"
    have run: "main tk argv fs = Some (?w, 0)" by (rule main_target[OF opens selected])
    have pend: "pending ?w = []" by simp
    show ?thesis
    proof (cases rule: content_case [of tk "clipboard_contents tk t" ?asked])
      case none
      then have tr: "trace ?w =
          [RequestTargets, RequestContents t, Print unsupported_msg [], MainQuit]"
        and fl: "files ?w = fs"
        by simp_all
      note seen = seen_from_start[OF tr]
      show ?thesis
        using opens run pend fl tr seen by (simp add: unsupported_msg_def [symmetric])
    next
      case (image pb)
      let ?p = "g_print ''Image data detected. Opening save dialog...\<newline>'' [] ?asked"
      have before: "trace ?p =
          [RequestTargets, RequestContents t,
           Print ''Image data detected. Opening save dialog...\<newline>'' []]"
        "files ?p = fs"
        by simp_all
      show ?thesis
      proof (cases "dialog_run tk save_image_dialog = GTK_RESPONSE_ACCEPT")
        case False
        from save_image_canceled[OF False, of pb ?p] image before
        have tr: "trace ?w =
            [RequestTargets, RequestContents t,
             Print ''Image data detected. Opening save dialog...\<newline>'' [],
             RunDialog save_image_dialog, Print ''Image save canceled.\<newline>'' [], MainQuit]"
          and fl: "files ?w = fs"
          by simp_all
        note seen = seen_from_start[OF tr]
        show ?thesis
          using opens run pend fl tr seen False dialogs_differ by simp
      next
        case True
        note accepted = this
        show ?thesis
        proof (cases "dialog_filename tk save_image_dialog")
          case None
          from save_image_no_filename[OF accepted None, of pb ?p] image before
          have tr: "trace ?w =
              [RequestTargets, RequestContents t,
               Print ''Image data detected. Opening save dialog...\<newline>'' [],
               RunDialog save_image_dialog, MainQuit]"
            and fl: "files ?w = fs"
            by simp_all
          note seen = seen_from_start[OF tr]
          show ?thesis
            using opens run pend fl tr seen accepted None dialogs_differ by simp
        next
          case (Some path)
          note chosen = this
          let ?format = "if suffix ''.jpg'' path \<or> suffix ''.jpeg'' path then ''jpeg'' else ''png''"
          show ?thesis
          proof (cases "pixbuf_save tk pb path ?format")
            case (Inr bytes)
            from save_image_written[OF accepted chosen refl Inr, of ?p] image before
            have tr: "trace ?w =
                [RequestTargets, RequestContents t,
                 Print ''Image data detected. Opening save dialog...\<newline>'' [],
                 RunDialog save_image_dialog, PixbufSave pb path ?format,
                 Print ''Image successfully saved to: %s\<newline>'' [path], MainQuit]"
              and fl: "files ?w = fs(path \<mapsto> bytes)"
              by simp_all
            note seen = seen_from_start[OF tr]
            have "\<exists>path' pb' format bytes'. dialogs ?w = [save_image_dialog]
              \<and> dialog_run tk save_image_dialog = GTK_RESPONSE_ACCEPT
              \<and> dialog_filename tk save_image_dialog = Some path'
              \<and> pixbuf_save tk pb' path' format = Inr bytes'
              \<and> writes ?w = [] \<and> encodings ?w = [(pb', path', format)]
              \<and> files ?w = fs(path' \<mapsto> bytes')
              \<and> terminal_msgs ?w = [Print ''Image successfully saved to: %s\<newline>'' [path']]"
              using fl seen accepted chosen Inr
              by (intro exI [of _ path] exI [of _ pb] exI [of _ ?format] exI [of _ bytes]) simp
            then show ?thesis
              using opens run pend tr seen by simp
          next
            case (Inl message)
            from save_image_failed(1)[OF accepted chosen refl Inl, of ?p] image before
            have tr: "trace ?w =
                [RequestTargets, RequestContents t,
                 Print ''Image data detected. Opening save dialog...\<newline>'' [],
                 RunDialog save_image_dialog, PixbufSave pb path ?format,
                 PrintErr ''Error saving image: %s\<newline>'' [message], MainQuit]"
              by simp
            note seen = seen_from_start[OF tr]
            have "\<exists>path' pb' format message'. dialogs ?w = [save_image_dialog]
              \<and> dialog_run tk save_image_dialog = GTK_RESPONSE_ACCEPT
              \<and> dialog_filename tk save_image_dialog = Some path'
              \<and> pixbuf_save tk pb' path' format = Inl message'
              \<and> writes ?w = [] \<and> encodings ?w = [(pb', path', format)]
              \<and> terminal_msgs ?w = [PrintErr ''Error saving image: %s\<newline>'' [message']]"
              using seen accepted chosen Inl
              by (intro exI [of _ path] exI [of _ pb] exI [of _ ?format] exI [of _ message]) simp
            then show ?thesis
              using opens run pend tr seen by simp
          qed
        qed
      qed
    next
      case (plain payload)
      let ?p = "g_print ''Text data detected. Opening save dialog...\<newline>'' [] ?asked"
      have before: "trace ?p =
          [RequestTargets, RequestContents t,
           Print ''Text data detected. Opening save dialog...\<newline>'' []]"
        "files ?p = fs"
        by simp_all
      show ?thesis
      proof (cases "dialog_run tk save_text_dialog = GTK_RESPONSE_ACCEPT")
        case False
        from save_text_canceled[OF False, of payload ?p] plain before
        have tr: "trace ?w =
            [RequestTargets, RequestContents t,
             Print ''Text data detected. Opening save dialog...\<newline>'' [],
             RunDialog save_text_dialog, Print ''Text save canceled.\<newline>'' [], MainQuit]"
          and fl: "files ?w = fs"
          by simp_all
        note seen = seen_from_start[OF tr]
        show ?thesis
          using opens run pend fl tr seen False by simp
      next
        case True
        note accepted = this
        show ?thesis
        proof (cases "dialog_filename tk save_text_dialog")
          case None
          from save_text_no_filename[OF accepted None, of payload ?p] plain before
          have tr: "trace ?w =
              [RequestTargets, RequestContents t,
               Print ''Text data detected. Opening save dialog...\<newline>'' [],
               RunDialog save_text_dialog, MainQuit]"
            and fl: "files ?w = fs"
            by simp_all
          note seen = seen_from_start[OF tr]
          show ?thesis
            using opens run pend fl tr seen accepted None by simp
        next
          case (Some path)
          note chosen = this
          show ?thesis
          proof (cases "file_set_contents tk path payload")
            case None
            from save_text_written[OF accepted chosen None, of ?p] plain before
            have tr: "trace ?w =
                [RequestTargets, RequestContents t,
                 Print ''Text data detected. Opening save dialog...\<newline>'' [],
                 RunDialog save_text_dialog, SetContents path payload,
                 Print ''Text successfully saved to: %s\<newline>'' [path], MainQuit]"
              and fl: "files ?w = fs(path \<mapsto> payload)"
              by simp_all
            note seen = seen_from_start[OF tr]
            have "\<exists>path' payload'. dialogs ?w = [save_text_dialog]
              \<and> dialog_run tk save_text_dialog = GTK_RESPONSE_ACCEPT
              \<and> dialog_filename tk save_text_dialog = Some path'
              \<and> file_set_contents tk path' payload' = None
              \<and> writes ?w = [(path', payload')] \<and> encodings ?w = []
              \<and> files ?w = fs(path' \<mapsto> payload')
              \<and> terminal_msgs ?w = [Print ''Text successfully saved to: %s\<newline>'' [path']]"
              using fl seen accepted chosen None
              by (intro exI [of _ path] exI [of _ payload]) simp
            then show ?thesis
              using opens run pend tr seen by simp
          next
            case (Some message)
            from save_text_failed(1)[OF accepted chosen Some, of ?p] plain before
            have tr: "trace ?w =
                [RequestTargets, RequestContents t,
                 Print ''Text data detected. Opening save dialog...\<newline>'' [],
                 RunDialog save_text_dialog, SetContents path payload,
                 PrintErr ''Error saving text file: %s\<newline>'' [message], MainQuit]"
              by simp
            note seen = seen_from_start[OF tr]
            have "\<exists>path' payload' message'. dialogs ?w = [save_text_dialog]
              \<and> dialog_run tk save_text_dialog = GTK_RESPONSE_ACCEPT
              \<and> dialog_filename tk save_text_dialog = Some path'
              \<and> file_set_contents tk path' payload' = Some message'
              \<and> writes ?w = [(path', payload')] \<and> encodings ?w = []
              \<and> terminal_msgs ?w = [PrintErr ''Error saving text file: %s\<newline>'' [message']]"
              using seen accepted chosen Some
              by (intro exI [of _ path] exI [of _ payload] exI [of _ message]) simp
            then show ?thesis
              using opens run pend tr seen by simp
          qed
        qed
      qed
    qed
  qed
qed



end
